theory Spec2Isabelle
  imports Complex_Main
begin

section \<open>Python values\<close>

text \<open>
  A Python \<open>str\<close> is a sequence of Unicode code points, so it is modelled as a list of
  code points. \<open>str\<close> turns an Isabelle string literal into one.
\<close>

type_synonym pystr = "nat list"

definition str :: "string \<Rightarrow> pystr" where
  "str s = map of_char s"

text \<open>
  \<open>str.strip()\<close> with no argument removes the characters for which \<open>str.isspace\<close> holds
  from both ends: the ASCII whitespace U+0009..U+000D, U+001C..U+001F and U+0020, and
  U+0085, U+00A0, U+1680, U+2000..U+200A, U+2028, U+2029, U+202F, U+205F, U+3000.
\<close>

definition isspace :: "nat \<Rightarrow> bool" where
  "isspace c = (c \<in> {9, 10, 11, 12, 13, 28, 29, 30, 31, 32, 133, 160, 5760,
                     8192, 8193, 8194, 8195, 8196, 8197, 8198, 8199, 8200, 8201, 8202,
                     8232, 8233, 8239, 8287, 12288})"

definition strip :: "pystr \<Rightarrow> pystr" where
  "strip s = rev (dropWhile isspace (rev (dropWhile isspace s)))"

text \<open>
  The values \<open>json.loads\<close> and \<open>json.load\<close> return. A JSON object becomes a \<open>dict\<close>,
  written here as the list of its items and read with \<open>map_of\<close>; a number becomes an
  \<open>int\<close> or a \<open>float\<close> (\<open>NaN\<close> and the infinities are accepted by the parser).
\<close>

datatype pyfloat = Finite real | PosInf | NegInf | NaN

datatype json =
    JNull
  | JBool bool
  | JInt int
  | JFloat pyfloat
  | JStr pystr
  | JArr "json list"
  | JObj "(pystr \<times> json) list"

text \<open>
  \<open>json.loads\<close> and \<open>json.load\<close> do not only return a value or raise
  \<open>json.JSONDecodeError\<close>: on text nested deeper than the interpreter's recursion limit
  they raise \<open>RecursionError\<close>, and on text with an integer of more digits than the
  interpreter converts (4300 by default) they raise a plain \<open>ValueError\<close>, whether or not
  the text as a whole is JSON. Both limits are settings of the interpreter.
\<close>

datatype limit = Recursion_limit | Int_digits_limit

text \<open>Truth value testing, as \<open>if x:\<close> does it.\<close>

fun truthy :: "json \<Rightarrow> bool" where
  "truthy JNull = False"
| "truthy (JBool b) = b"
| "truthy (JInt i) = (i \<noteq> 0)"
| "truthy (JFloat f) = (f \<noteq> Finite 0)"
| "truthy (JStr s) = (s \<noteq> [])"
| "truthy (JArr xs) = (xs \<noteq> [])"
| "truthy (JObj kvs) = (kvs \<noteq> [])"

text \<open>\<open>d.get(key, default)\<close> on a dict given by its items, and on a dict given as a map.\<close>

definition items_get :: "(pystr \<times> 'v) list \<Rightarrow> pystr \<Rightarrow> 'v \<Rightarrow> 'v" where
  "items_get kvs k d = (case map_of kvs k of None \<Rightarrow> d | Some v \<Rightarrow> v)"

definition dict_get :: "(pystr \<rightharpoonup> 'v) \<Rightarrow> pystr \<Rightarrow> 'v \<Rightarrow> 'v" where
  "dict_get m k d = (case m k of None \<Rightarrow> d | Some v \<Rightarrow> v)"

text \<open>\<open>str(n)\<close> for a non-negative integer: its decimal digits.\<close>

fun str_of_nat :: "nat \<Rightarrow> pystr" where
  "str_of_nat n = (if n < 10 then [48 + n] else str_of_nat (n div 10) @ [48 + n mod 10])"

declare str_of_nat.simps [simp del]

section \<open>Exceptions and the log\<close>

text \<open>
  The exceptions that can arise in the program. \<open>HTTPError\<close> carries its message, the only
  one the program prints. The classes of \<open>requests.exceptions\<close> form a hierarchy under
  \<open>RequestException\<close>: \<open>ProxyError\<close>, \<open>SSLError\<close> and \<open>ConnectTimeout\<close> are
  \<open>ConnectionError\<close>s, \<open>ConnectTimeout\<close> and \<open>ReadTimeout\<close> are \<open>Timeout\<close>s
  (\<open>ConnectTimeout\<close> is both). The predicates below are \<open>isinstance\<close> for the four classes
  that \<open>make_request\<close> names. \<open>ValueError\<close> stands for a \<open>ValueError\<close> that is not a
  \<open>json.JSONDecodeError\<close> (nor a \<open>UnicodeDecodeError\<close>), \<open>OSError\<close> for one that is
  neither a \<open>FileNotFoundError\<close> nor an exception of \<open>requests\<close>.
\<close>

datatype exn =
    HTTPError pystr
  | ConnectionError
  | ProxyError
  | SSLError
  | ConnectTimeout
  | ReadTimeout
  | Timeout
  | RetryError
  | ChunkedEncodingError
  | ContentDecodingError
  | InvalidJSONError
  | MissingSchema
  | InvalidSchema
  | InvalidURL
  | RequestException
  | UnicodeDecodeError
  | AttributeError
  | TypeError
  | OSError
  | RecursionError
  | ValueError

fun is_HTTPError :: "exn \<Rightarrow> bool" where
  "is_HTTPError (HTTPError m) = True"
| "is_HTTPError e = False"

definition is_ConnectionError :: "exn \<Rightarrow> bool" where
  "is_ConnectionError e = (e \<in> {ConnectionError, ProxyError, SSLError, ConnectTimeout})"

definition is_Timeout :: "exn \<Rightarrow> bool" where
  "is_Timeout e = (e \<in> {Timeout, ConnectTimeout, ReadTimeout})"

definition is_RequestException :: "exn \<Rightarrow> bool" where
  "is_RequestException e =
     (e \<notin> {UnicodeDecodeError, AttributeError, TypeError, OSError, RecursionError,
            ValueError})"

text \<open>The exception raised when \<open>json.loads\<close> meets a limit of the interpreter.\<close>

primrec limit_error :: "limit \<Rightarrow> exn" where
  "limit_error Recursion_limit = RecursionError"
| "limit_error Int_digits_limit = ValueError"

text \<open>
  The log file: one record per \<open>logging\<close> call, its level and which message of the source
  it is (the messages embed the text of an exception or of a line, which is left out).
\<close>

datatype level = DEBUG | ERROR

datatype message =
    File_not_found
  | File_JSON_decode_error
  | Decoded_line
  | Line_JSON_decode_error
  | HTTP_error_occurred
  | Connection_error_occurred
  | Timeout_error_occurred
  | Request_exception_occurred

type_synonym log = "(level \<times> message) list"

section \<open>Context loader\<close>

text \<open>
  What \<open>open(SYLLABUS_FILE, 'r')\<close> followed by \<open>json.load\<close> finds, given by what they
  make of it: no such file (\<open>FileNotFoundError\<close>); a file that cannot be opened for
  another reason (another \<open>OSError\<close>); bytes that are not text in the locale's encoding
  (\<open>UnicodeDecodeError\<close>); text that is not JSON, on which \<open>json.load\<close> raises
  \<open>json.JSONDecodeError\<close> (\<open>Malformed\<close>) or meets a limit of the interpreter before it
  finds the error (\<open>Malformed_beyond\<close>); JSON text on which \<open>json.load\<close> meets a limit
  (\<open>Document_beyond\<close>) or returns a value (\<open>Document\<close>).
\<close>

datatype syllabus_file =
    Absent
  | Unopenable
  | Undecodable
  | Malformed
  | Malformed_beyond limit
  | Document_beyond limit
  | Document json

fun load_syllabus_data :: "syllabus_file \<Rightarrow> (exn + json) \<times> log" where
  "load_syllabus_data (Document j) = (Inr j, [])"
| "load_syllabus_data Absent = (Inr (JObj []), [(ERROR, File_not_found)])"
| "load_syllabus_data Malformed = (Inr (JObj []), [(ERROR, File_JSON_decode_error)])"
| "load_syllabus_data Unopenable = (Inl OSError, [])"
| "load_syllabus_data Undecodable = (Inl UnicodeDecodeError, [])"
| "load_syllabus_data (Malformed_beyond l) = (Inl (limit_error l), [])"
| "load_syllabus_data (Document_beyond l) = (Inl (limit_error l), [])"

section \<open>Request builder\<close>

text \<open>
  The module-level configuration, read from the environment when the module is loaded.
\<close>

record config =
  OLLAMA_URL :: pystr
  MODEL_NAME :: pystr

type_synonym payload = "pystr \<rightharpoonup> json"

definition create_request_data :: "config \<Rightarrow> pystr \<Rightarrow> json \<Rightarrow> payload" where
  "create_request_data cfg prompt syllabus_data =
     (let data = [str ''model'' \<mapsto> JStr (MODEL_NAME cfg), str ''prompt'' \<mapsto> JStr prompt]
      in if truthy syllabus_data then data(str ''syllabus'' \<mapsto> syllabus_data) else data)"

section \<open>Transport session\<close>

text \<open>
  The program reaches the server through \<open>requests\<close> and \<open>urllib3\<close>. What the network
  and the server do is the environment of the program: for a request and the number of
  attempts already made for it, either a response arrives or the attempt fails below HTTP.
  The environment also says when \<open>requests\<close> cannot prepare the request and raises before
  anything is sent (\<open>Unsent\<close>): \<open>InvalidJSONError\<close> for a payload it does not serialise
  (one holding \<open>NaN\<close> or an infinity), \<open>MissingSchema\<close>, \<open>InvalidSchema\<close> or
  \<open>InvalidURL\<close> for a URL it does not accept.

  A line of a streamed body, \<open>response.iter_lines()\<close>, is bytes. The program looks at a
  line only through \<open>if line\<close>, \<open>line.decode('utf-8')\<close> and \<open>json.loads\<close>, so a line is
  given by what these make of it: empty bytes; bytes that are not UTF-8
  (\<open>UnicodeDecodeError\<close>); text that is not JSON, on which \<open>json.loads\<close> raises
  \<open>json.JSONDecodeError\<close> (\<open>BadJson\<close>) or meets a limit of the interpreter before it
  finds the error (\<open>BadJson_beyond\<close>); JSON text on which \<open>json.loads\<close> meets a limit
  (\<open>Json_beyond\<close>) or returns a value (\<open>Json\<close>). Reading the body can itself fail once
  its lines are used up (\<open>iter_error\<close>, a \<open>requests\<close> exception such as
  \<open>ChunkedEncodingError\<close>); otherwise the connection closes and the iteration ends.
\<close>

datatype wire_line =
    Blank
  | BadUtf8
  | BadJson
  | Json json
  | BadJson_beyond limit
  | Json_beyond limit

record response =
  status_code :: nat
  reason :: pystr
  url :: pystr
  iter_lines :: "wire_line list"
  iter_error :: "exn option"

record request =
  req_method :: pystr
  req_url :: pystr
  req_json :: payload
  req_timeout :: nat
  req_stream :: bool

datatype urllib3_error =
    NewConnectionError
  | ConnectTimeoutError
  | ReadTimeoutError
  | ProtocolError

datatype unsendable =
    Payload_not_serialisable
  | URL_without_scheme
  | URL_scheme_unknown
  | URL_invalid

primrec prepare_error :: "unsendable \<Rightarrow> exn" where
  "prepare_error Payload_not_serialisable = InvalidJSONError"
| "prepare_error URL_without_scheme = MissingSchema"
| "prepare_error URL_scheme_unknown = InvalidSchema"
| "prepare_error URL_invalid = InvalidURL"

datatype attempt = Responds response | Fails urllib3_error | Unsent unsendable

type_synonym connection = "nat \<Rightarrow> attempt"

type_synonym server = "request \<Rightarrow> connection"

subsection \<open>The retry policy of urllib3\<close>

text \<open>
  \<open>urllib3.util.retry.Retry\<close> with the arguments \<open>setup_session\<close> gives it; the other
  counters (\<open>connect\<close>, \<open>read\<close>, \<open>redirect\<close>, \<open>status\<close>, \<open>other\<close>) keep their default
  \<open>None\<close> and \<open>raise_on_status\<close> its default \<open>True\<close>. \<open>total\<close> is the number of
  \<^emph>\<open>retries\<close> allowed: \<open>increment\<close> takes one off for every failed attempt and the
  policy \<open>is_exhausted\<close> once the count is below zero. Responses are taken to carry no
  \<open>Retry-After\<close> header and not to redirect.
\<close>

record retry =
  total :: int
  backoff_factor :: nat
  status_forcelist :: "nat list"
  allowed_methods :: "pystr list"

definition is_method_retryable :: "retry \<Rightarrow> pystr \<Rightarrow> bool" where
  "is_method_retryable r m = (allowed_methods r = [] \<or> m \<in> set (allowed_methods r))"

definition is_retry :: "retry \<Rightarrow> pystr \<Rightarrow> nat \<Rightarrow> bool" where
  "is_retry r m status =
     (is_method_retryable r m \<and> status_forcelist r \<noteq> [] \<and> status \<in> set (status_forcelist r))"

definition is_exhausted :: "retry \<Rightarrow> bool" where
  "is_exhausted r = (total r < 0)"

text \<open>\<open>increment\<close> returns the new policy, or raises \<open>MaxRetryError\<close> (here \<open>None\<close>).\<close>

definition increment :: "retry \<Rightarrow> retry option" where
  "increment r =
     (let new_retry = r\<lparr>total := total r - 1\<rparr>
      in if is_exhausted new_retry then None else Some new_retry)"

datatype cause = ResponseError | Cause urllib3_error

datatype urlopen_result = Returned response | MaxRetryError cause | NotSent unsendable

text \<open>
  \<open>HTTPConnectionPool.urlopen\<close>: one attempt, then either the response is returned, or
  the policy is incremented and the request is made again. The last argument counts the
  attempts made so far; the result holds the number of attempts made in all. A request that
  cannot be prepared is not sent: no attempt is counted for it and nothing is retried.
\<close>

function urlopen :: "connection \<Rightarrow> pystr \<Rightarrow> retry \<Rightarrow> nat \<Rightarrow> urlopen_result \<times> nat" where
  "urlopen conn m retries n =
     (case conn n of
        Fails e \<Rightarrow>
          (case increment retries of
             None \<Rightarrow> (MaxRetryError (Cause e), Suc n)
           | Some retries' \<Rightarrow> urlopen conn m retries' (Suc n))
      | Responds resp \<Rightarrow>
          if is_retry retries m (status_code resp) then
            (case increment retries of
               None \<Rightarrow> (MaxRetryError ResponseError, Suc n)
             | Some retries' \<Rightarrow> urlopen conn m retries' (Suc n))
          else (Returned resp, Suc n)
      | Unsent why \<Rightarrow> (NotSent why, n))"
  by pat_completeness auto
termination
  by (relation "measure (\<lambda>(conn, m, retries, n). nat (total retries + 1))")
     (auto simp: increment_def is_exhausted_def Let_def split: if_splits)

declare urlopen.simps [simp del]

text \<open>
  \<open>HTTPAdapter.send\<close>: the response, or the \<open>requests\<close> exception that stands for the
  \<open>MaxRetryError\<close>: \<open>ConnectTimeout\<close> for a connect timeout, \<open>RetryError\<close> when the last
  attempt was a response the policy retries, \<open>ConnectionError\<close> otherwise. For a request
  that could not be prepared it is the exception of the preparation.
\<close>

definition send :: "retry \<Rightarrow> connection \<Rightarrow> pystr \<Rightarrow> (exn + response) \<times> nat" where
  "send retries conn m =
     (case urlopen conn m retries 0 of
        (Returned resp, n) \<Rightarrow> (Inr resp, n)
      | (MaxRetryError (Cause ConnectTimeoutError), n) \<Rightarrow> (Inl ConnectTimeout, n)
      | (MaxRetryError ResponseError, n) \<Rightarrow> (Inl RetryError, n)
      | (MaxRetryError (Cause e), n) \<Rightarrow> (Inl ConnectionError, n)
      | (NotSent why, n) \<Rightarrow> (Inl (prepare_error why), n))"

subsection \<open>The session\<close>

text \<open>
  \<open>setup_session\<close> mounts one adapter on \<open>http://\<close> and on \<open>https://\<close>; the session is
  given by the retry policy of that adapter, which every request of either scheme goes
  through.
\<close>

record session =
  max_retries :: retry

definition setup_session :: session where
  "setup_session =
     (let retries = \<lparr>total = 5, backoff_factor = 1,
                      status_forcelist = [429, 500, 502, 503, 504],
                      allowed_methods = [str ''POST'']\<rparr>
      in \<lparr>max_retries = retries\<rparr>)"

text \<open>
  \<open>session.post(url, json=data, timeout=10, stream=True)\<close>: the response or the exception,
  and the number of attempts made.
\<close>

definition post_request :: "pystr \<Rightarrow> payload \<Rightarrow> request" where
  "post_request u data =
     \<lparr>req_method = str ''POST'', req_url = u, req_json = data,
      req_timeout = 10, req_stream = True\<rparr>"

definition post :: "server \<Rightarrow> session \<Rightarrow> pystr \<Rightarrow> payload \<Rightarrow> (exn + response) \<times> nat" where
  "post srv s u data =
     send (max_retries s) (srv (post_request u data)) (req_method (post_request u data))"

text \<open>\<open>response.raise_for_status()\<close>: the \<open>HTTPError\<close> it raises, if any.\<close>

definition raise_for_status :: "response \<Rightarrow> exn option" where
  "raise_for_status r =
     (if 400 \<le> status_code r \<and> status_code r < 500 then
        Some (HTTPError (str_of_nat (status_code r) @ str '' Client Error: '' @ reason r
                         @ str '' for url: '' @ url r))
      else if 500 \<le> status_code r \<and> status_code r < 600 then
        Some (HTTPError (str_of_nat (status_code r) @ str '' Server Error: '' @ reason r
                         @ str '' for url: '' @ url r))
      else None)"

section \<open>Streaming decoder\<close>

definition logged :: "log \<Rightarrow> 'a \<times> log \<Rightarrow> 'a \<times> log" where
  "logged entries r = (fst r, entries @ snd r)"

text \<open>
  The \<open>for\<close> loop of \<open>make_request\<close> over the lines still to come, with the text
  accumulated so far: the exception that leaves the loop or the text accumulated when the
  loop ends (by \<open>break\<close> or at the end of the body), and the log records written.
\<close>

fun for_loop :: "wire_line list \<Rightarrow> exn option \<Rightarrow> pystr \<Rightarrow> (exn + pystr) \<times> log" where
  "for_loop [] ending full_response =
     (case ending of None \<Rightarrow> (Inr full_response, []) | Some e \<Rightarrow> (Inl e, []))"
| "for_loop (Blank # rest) ending full_response = for_loop rest ending full_response"
| "for_loop (BadUtf8 # rest) ending full_response = (Inl UnicodeDecodeError, [])"
| "for_loop (BadJson # rest) ending full_response =
     logged [(DEBUG, Decoded_line), (ERROR, Line_JSON_decode_error)]
       (for_loop rest ending full_response)"
| "for_loop (Json json_obj # rest) ending full_response =
     logged [(DEBUG, Decoded_line)]
       (case json_obj of
          JObj kvs \<Rightarrow>
            (case items_get kvs (str ''response'') (JStr []) of
               JStr fragment \<Rightarrow>
                 if truthy (items_get kvs (str ''done'') (JBool False))
                 then (Inr (full_response @ fragment), [])
                 else for_loop rest ending (full_response @ fragment)
             | _ \<Rightarrow> (Inl TypeError, []))
        | _ \<Rightarrow> (Inl AttributeError, []))"
| "for_loop (BadJson_beyond l # rest) ending full_response =
     logged [(DEBUG, Decoded_line)] (Inl (limit_error l), [])"
| "for_loop (Json_beyond l # rest) ending full_response =
     logged [(DEBUG, Decoded_line)] (Inl (limit_error l), [])"

text \<open>The body of the \<open>try\<close> statement up to the \<open>return\<close>.\<close>

definition try_block :: "server \<Rightarrow> pystr \<Rightarrow> payload \<Rightarrow> session \<Rightarrow> (exn + pystr) \<times> log" where
  "try_block srv u data s =
     (case fst (post srv s u data) of
        Inl e \<Rightarrow> (Inl e, [])
      | Inr response \<Rightarrow>
          (case raise_for_status response of
             Some e \<Rightarrow> (Inl e, [])
           | None \<Rightarrow> for_loop (iter_lines response) (iter_error response) []))"

text \<open>
  The \<open>except\<close> clauses in their order: the dict returned and the record logged, or
  \<open>None\<close> when no clause matches and the exception leaves \<open>make_request\<close>.
\<close>

fun except_clauses :: "exn \<Rightarrow> ((pystr \<rightharpoonup> pystr) \<times> (level \<times> message)) option" where
  "except_clauses (HTTPError http_err) =
     Some ([str ''error'' \<mapsto> str ''HTTP error: '' @ http_err], (ERROR, HTTP_error_occurred))"
| "except_clauses e =
     (if is_ConnectionError e then
        Some ([str ''error'' \<mapsto>
                 str ''Connection error. Please check if the Ollama server is running.''],
              (ERROR, Connection_error_occurred))
      else if is_Timeout e then
        Some ([str ''error'' \<mapsto> str ''The request timed out. Please try again later.''],
              (ERROR, Timeout_error_occurred))
      else if is_RequestException e then
        Some ([str ''error'' \<mapsto> str ''An unexpected error occurred.''],
              (ERROR, Request_exception_occurred))
      else None)"

definition make_request ::
  "server \<Rightarrow> pystr \<Rightarrow> payload \<Rightarrow> session \<Rightarrow> (exn + (pystr \<rightharpoonup> pystr)) \<times> log" where
  "make_request srv u data s =
     (case try_block srv u data s of
        (Inr full_response, lg) \<Rightarrow> (Inr [str ''text'' \<mapsto> strip full_response], lg)
      | (Inl e, lg) \<Rightarrow>
          (case except_clauses e of
             Some (d, entry) \<Rightarrow> (Inr d, lg @ [entry])
           | None \<Rightarrow> (Inl e, lg)))"

definition chat_with_gpt ::
  "config \<Rightarrow> server \<Rightarrow> pystr \<Rightarrow> json \<Rightarrow> session \<Rightarrow> (exn + pystr) \<times> log" where
  "chat_with_gpt cfg srv prompt syllabus_data s =
     (let data = create_request_data cfg prompt syllabus_data
      in case make_request srv (OLLAMA_URL cfg) data s of
           (Inl e, lg) \<Rightarrow> (Inl e, lg)
         | (Inr response_data, lg) \<Rightarrow>
             (case response_data (str ''error'') of
                Some err \<Rightarrow> (Inr (str ''An error occurred: '' @ err), lg)
              | None \<Rightarrow>
                  (Inr (strip (dict_get response_data (str ''text'')
                                 (str ''No response text found.''))), lg)))"

section \<open>Vocabulary of the properties\<close>

text \<open>
  A line that \<open>make_request\<close> takes a fragment from: a JSON object whose \<open>response\<close> is
  absent or a string. \<open>fragment\<close> gives the text the line adds and whether its \<open>done\<close>
  is true; \<open>text_of\<close> is the text a line adds, none for a line that is no fragment.
\<close>

definition fragment :: "wire_line \<Rightarrow> (pystr \<times> bool) option" where
  "fragment l =
     (case l of
        Json (JObj kvs) \<Rightarrow>
          (case items_get kvs (str ''response'') (JStr []) of
             JStr t \<Rightarrow> Some (t, truthy (items_get kvs (str ''done'') (JBool False)))
           | _ \<Rightarrow> None)
      | _ \<Rightarrow> None)"

definition text_of :: "wire_line \<Rightarrow> pystr" where
  "text_of l = (case fragment l of Some (t, d) \<Rightarrow> t | None \<Rightarrow> [])"

text \<open>
  A response with the lines removed on which \<open>json.loads\<close> raises
  \<open>json.JSONDecodeError\<close>, and a server that sends such.
\<close>

definition without_bad_json :: "response \<Rightarrow> response" where
  "without_bad_json r = r\<lparr>iter_lines := filter (\<lambda>l. l \<noteq> BadJson) (iter_lines r)\<rparr>"

primrec map_attempt :: "(response \<Rightarrow> response) \<Rightarrow> attempt \<Rightarrow> attempt" where
  "map_attempt f (Responds r) = Responds (f r)"
| "map_attempt f (Fails e) = Fails e"
| "map_attempt f (Unsent why) = Unsent why"

definition sends_without_bad_json :: "server \<Rightarrow> server" where
  "sends_without_bad_json srv = (\<lambda>req n. map_attempt without_bad_json (srv req n))"

text \<open>
  A line whose text is not JSON, whatever \<open>json.loads\<close> raises on it, and a response with
  those lines removed.
\<close>

fun malformed :: "wire_line \<Rightarrow> bool" where
  "malformed BadJson = True"
| "malformed (BadJson_beyond l) = True"
| "malformed l = False"

definition without_malformed :: "response \<Rightarrow> response" where
  "without_malformed r = r\<lparr>iter_lines := filter (\<lambda>l. \<not> malformed l) (iter_lines r)\<rparr>"



text \<open>
  Servers for the examples: one that answers every attempt with the same response, one
  that answers the first \<open>k\<close> attempts with one response and the later ones with another,
  one that refuses every connection and one that lets every connection attempt time out.
  Responses for the examples: a 200 with given lines, a 404 whose reason phrase holds a
  carriage return, and a 503.
\<close>

definition answers :: "response \<Rightarrow> server" where
  "answers r = (\<lambda>req n. Responds r)"




definition localhost :: pystr where
  "localhost = str ''http://localhost:11434/api/generate''"

definition ok_response :: "wire_line list \<Rightarrow> response" where
  "ok_response ls =
     \<lparr>status_code = 200, reason = str ''OK'', url = localhost,
      iter_lines = ls, iter_error = None\<rparr>"



definition default_config :: config where
  "default_config = \<lparr>OLLAMA_URL = localhost, MODEL_NAME = str ''mistral''\<rparr>"


text \<open>The JSON object \<open>{key: text, "done": done}\<close> as a line of the body.\<close>

definition line_of :: "string \<Rightarrow> string \<Rightarrow> bool \<Rightarrow> wire_line" where
  "line_of key t done = Json (JObj [(str key, JStr (str t)), (str ''done'', JBool done)])"

section \<open>Properties of the helpers\<close>

lemma strip_ends:
  "strip s = [] \<or> (\<not> isspace (hd (strip s)) \<and> \<not> isspace (last (strip s)))"
proof (cases "strip s = []")
  case True
  then show ?thesis by simp
next
  case False
  let ?a = "dropWhile isspace s"
  let ?b = "dropWhile isspace (rev ?a)"
  have b: "?b \<noteq> []" using False by (simp add: strip_def)
  then have hb: "\<not> isspace (hd ?b)" by (rule hd_dropWhile)
  have a: "?a \<noteq> []"
  proof
    assume "?a = []"
    then have "?b = []" by (simp only: rev.simps dropWhile.simps)
    with b show False by contradiction
  qed
  then have ha: "\<not> isspace (hd ?a)" by (rule hd_dropWhile)
  have l: "last (strip s) = hd ?b" using b by (simp add: strip_def last_rev)
  obtain ys where "rev ?a = ys @ ?b"
    by (metis takeWhile_dropWhile_id)
  then have "rev (rev ?a) = rev (ys @ ?b)" by (rule arg_cong)
  then have "?a = strip s @ rev ys" by (simp only: rev_rev_ident rev_append strip_def)
  then have "hd ?a = hd (strip s)" using False by (metis hd_append2)
  with l ha hb show ?thesis by simp
qed

lemma strip_strip: "strip (strip s) = strip s"
proof -
  have "dropWhile isspace (strip s) = strip s"
    using strip_ends [of s] by (auto simp: dropWhile_eq_self_iff)
  then show ?thesis by (simp add: strip_def)
qed

lemma fst_logged: "fst (logged es r) = fst r"
  by (simp add: logged_def)

lemma snd_logged: "snd (logged es r) = es @ snd r"
  by (simp add: logged_def)


lemma for_loop_filter:
  "fst (for_loop (filter (\<lambda>l. l \<noteq> BadJson) ls) ending acc) = fst (for_loop ls ending acc)"
  by (induction ls ending acc rule: for_loop.induct) (auto simp: fst_logged split: json.splits)

text \<open>
  A change to the responses that keeps their status goes through \<open>urlopen\<close> unchanged.
\<close>

lemma urlopen_map:
  assumes f: "\<And>r. status_code (f r) = status_code r"
  shows "urlopen (\<lambda>k. map_attempt f (conn k)) m retries n =
         (case urlopen conn m retries n of
            (Returned r, k) \<Rightarrow> (Returned (f r), k)
          | (MaxRetryError c, k) \<Rightarrow> (MaxRetryError c, k)
          | (NotSent why, k) \<Rightarrow> (NotSent why, k))"
proof (induction conn m retries n rule: urlopen.induct)
  case (1 conn m retries n)
  show ?case
  proof (cases "conn n")
    case (Unsent why)
    then show ?thesis
      by (simp add: urlopen.simps [of _ m retries n])
  next
    case (Fails e)
    show ?thesis
    proof (cases "increment retries")
      case None
      with Fails show ?thesis
        by (simp add: urlopen.simps [of _ m retries n])
    next
      case (Some r')
      with Fails "1.IH"(2) [OF Fails Some] show ?thesis
        by (simp add: urlopen.simps [of _ m retries n])
    qed
  next
    case (Responds resp)
    show ?thesis
    proof (cases "is_retry retries m (status_code resp)")
      case False
      with Responds show ?thesis
        by (simp add: urlopen.simps [of _ m retries n] f)
    next
      case True
      show ?thesis
      proof (cases "increment retries")
        case None
        with Responds True show ?thesis
          by (simp add: urlopen.simps [of _ m retries n] f)
      next
        case (Some r')
        with Responds True "1.IH"(1) [OF Responds True Some] show ?thesis
          by (simp add: urlopen.simps [of _ m retries n] f)
      qed
    qed
  qed
qed


text \<open>What \<open>make_request\<close> and \<open>chat_with_gpt\<close> return, without the log.\<close>

lemma make_request_fst:
  "fst (make_request srv u data s) =
     (case fst (try_block srv u data s) of
        Inr full_response \<Rightarrow> Inr [str ''text'' \<mapsto> strip full_response]
      | Inl e \<Rightarrow> (case except_clauses e of Some (d, entry) \<Rightarrow> Inr d | None \<Rightarrow> Inl e))"
  by (simp add: make_request_def split: prod.splits sum.splits option.splits)

lemma chat_with_gpt_fst:
  "fst (chat_with_gpt cfg srv prompt ctx s) =
     (case fst (make_request srv (OLLAMA_URL cfg) (create_request_data cfg prompt ctx) s) of
        Inl e \<Rightarrow> Inl e
      | Inr d \<Rightarrow>
          (case d (str ''error'') of
             Some err \<Rightarrow> Inr (str ''An error occurred: '' @ err)
           | None \<Rightarrow>
               Inr (strip (dict_get d (str ''text'') (str ''No response text found.'')))))"
  by (cases "make_request srv (OLLAMA_URL cfg) (create_request_data cfg prompt ctx) s")
     (simp add: chat_with_gpt_def Let_def split: sum.splits option.splits)



lemma except_clauses_error:
  "except_clauses e = Some (d, entry) \<Longrightarrow> d (str ''error'') \<noteq> None"
  by (cases e) (auto split: if_splits)

text \<open>The loop at a fragment whose \<open>done\<close> is true, and the texts of lines.\<close>

lemma for_loop_done:
  "fragment l = Some (t, True) \<Longrightarrow> fst (for_loop (l # rest) ending acc) = Inr (acc @ t)"
  by (auto simp: fragment_def fst_logged split: wire_line.splits json.splits if_splits)

lemma fragment_line_of: "fragment (line_of ''response'' t d) = Some (str t, d)"
  by (simp add: fragment_def line_of_def items_get_def str_def)


lemma text_of_simps [simp]:
  "text_of Blank = []" "text_of BadJson = []" "text_of BadUtf8 = []"
  by (simp_all add: text_of_def fragment_def)

lemma strip_Nil: "strip [] = []"
  by (simp add: strip_def)

text \<open>
  Removing the lines on which \<open>json.loads\<close> raises \<open>json.JSONDecodeError\<close> from every
  response of a server.
\<close>

lemma raise_for_status_without_bad_json:
  "raise_for_status (without_bad_json r) = raise_for_status r"
  by (simp add: raise_for_status_def without_bad_json_def)

lemma post_without_bad_json:
  "post (sends_without_bad_json srv) s u data =
     (case post srv s u data of
        (Inr r, n) \<Rightarrow> (Inr (without_bad_json r), n)
      | (Inl e, n) \<Rightarrow> (Inl e, n))"
proof -
  have "status_code (without_bad_json r) = status_code r" for r
    by (simp add: without_bad_json_def)
  then show ?thesis
    by (simp add: post_def send_def sends_without_bad_json_def urlopen_map
             split: prod.splits urlopen_result.splits cause.splits urllib3_error.splits)
qed

lemma try_block_without_bad_json:
  "fst (try_block (sends_without_bad_json srv) u data s) = fst (try_block srv u data s)"
proof (cases "post srv s u data")
  case (Pair res n)
  show ?thesis
  proof (cases res)
    case (Inl e)
    with Pair show ?thesis by (simp add: try_block_def post_without_bad_json)
  next
    case (Inr r)
    have "iter_lines (without_bad_json r) = filter (\<lambda>l. l \<noteq> BadJson) (iter_lines r)"
      and "iter_error (without_bad_json r) = iter_error r"
      by (simp_all add: without_bad_json_def)
    with Pair Inr show ?thesis
      by (simp add: try_block_def post_without_bad_json raise_for_status_without_bad_json
            for_loop_filter split: option.splits)
  qed
qed

text \<open>The example servers, and the exceptions the transport raises.\<close>

lemma post_answers:
  "status_code r \<notin> set (status_forcelist (max_retries s)) \<Longrightarrow>
   post (answers r) s u data = (Inr r, 1)"
  by (simp add: post_def send_def answers_def urlopen.simps is_retry_def)

lemma raise_for_status_ok: "raise_for_status (ok_response ls) = None"
  by (simp add: raise_for_status_def ok_response_def)


lemma post_ok_response:
  "post (answers (ok_response ls)) setup_session u data = (Inr (ok_response ls), 1)"
  by (rule post_answers) (simp add: ok_response_def setup_session_def)

lemma prepare_error_cases:
  "prepare_error why \<in> {InvalidJSONError, MissingSchema, InvalidSchema, InvalidURL}"
  by (cases why) simp_all

lemma send_raises:
  "fst (send retries conn m) = Inl e \<Longrightarrow>
   e \<in> {ConnectTimeout, RetryError, ConnectionError,
        InvalidJSONError, MissingSchema, InvalidSchema, InvalidURL}"
  using prepare_error_cases
  by (auto simp: send_def split: prod.splits urlopen_result.splits cause.splits
        urllib3_error.splits)

lemma post_raises_request_exception:
  "fst (post srv s u data) = Inl e \<Longrightarrow> is_RequestException e"
  by (auto simp: post_def is_RequestException_def dest: send_raises)

text \<open>
  A timeout that \<open>session.post\<close> raises is a \<open>ConnectionError\<close>: a connect timeout
  becomes \<open>ConnectTimeout\<close>, which is both, and a read timeout, once the retries are used
  up, becomes a plain \<open>ConnectionError\<close>.
\<close>

lemma post_timeout_is_connection_error:
  "fst (post srv s u data) = Inl e \<Longrightarrow> is_Timeout e \<Longrightarrow> is_ConnectionError e"
  by (auto simp: post_def is_Timeout_def is_ConnectionError_def dest: send_raises)

text \<open>
  A request that cannot be prepared is not sent, and \<open>make_request\<close> returns the record
  of the last \<open>except\<close> clause.
\<close>

lemma post_unsent:
  assumes "srv (post_request u data) 0 = Unsent why"
  shows "post srv s u data = (Inl (prepare_error why), 0)"
    and "fst (make_request srv u data s) =
           Inr [str ''error'' \<mapsto> str ''An unexpected error occurred.'']"
proof -
  show p: "post srv s u data = (Inl (prepare_error why), 0)"
    using assms by (simp add: post_def send_def urlopen.simps)
  show "fst (make_request srv u data s) =
          Inr [str ''error'' \<mapsto> str ''An unexpected error occurred.'']"
    by (cases why)
       (simp_all add: make_request_fst try_block_def p is_ConnectionError_def is_Timeout_def
          is_RequestException_def)
qed

lemma raise_for_status_raises:
  "raise_for_status r = Some e \<Longrightarrow> is_HTTPError e \<and> is_RequestException e"
  by (auto simp: raise_for_status_def is_RequestException_def split: if_splits)








section \<open>Transport session: the number of attempts\<close>




section \<open>Streaming decoder: the end of the accumulation\<close>




section \<open>Streaming decoder: the text of a well-formed stream\<close>




section \<open>Streaming decoder: lines that are not JSON\<close>

text \<open>
  A line on which \<open>json.loads\<close> raises \<open>json.JSONDecodeError\<close> is skipped: for every
  server and session, \<open>make_request\<close> returns the same value when those lines are removed
  from every response, and such a line adds two records to the log (the decoded line at
  level DEBUG, the failure at level ERROR) before the loop goes on with the same text.
\<close>

lemma bad_json_lines_skipped:
  "fst (make_request (sends_without_bad_json srv) u data s) =
     fst (make_request srv u data s) \<and>
   fst (for_loop (BadJson # rest) ending acc) = fst (for_loop rest ending acc) \<and>
   snd (for_loop (BadJson # rest) ending acc) =
     (DEBUG, Decoded_line) # (ERROR, Line_JSON_decode_error) # snd (for_loop rest ending acc)"
  by (simp add: make_request_fst try_block_without_bad_json fst_logged snd_logged)

text \<open>
  Claim C4 does not hold of the program. The handler of the inner \<open>try\<close> names only
  \<open>json.JSONDecodeError\<close>. A line that is not JSON and nests brackets deeper than the
  recursion limit makes \<open>json.loads\<close> raise \<open>RecursionError\<close>, which no clause catches:
  it leaves \<open>make_request\<close> and the fragment after it is never read, while the same body
  without the malformed line gives that fragment's text.
\<close>

theorem C4_malformed_line_aborts:
  "malformed (BadJson_beyond Recursion_limit) \<and>
   fst (make_request
          (answers (ok_response [BadJson_beyond Recursion_limit,
                                 line_of ''response'' ''A'' True]))
          localhost Map.empty setup_session) = Inl RecursionError \<and>
   without_malformed (ok_response [BadJson_beyond Recursion_limit,
                                   line_of ''response'' ''A'' True]) =
     ok_response [line_of ''response'' ''A'' True] \<and>
   fst (make_request (answers (ok_response [line_of ''response'' ''A'' True]))
          localhost Map.empty setup_session) = Inr [str ''text'' \<mapsto> str ''A'']"
proof -
  have "fst (make_request
          (answers (ok_response [BadJson_beyond Recursion_limit,
                                 line_of ''response'' ''A'' True]))
          localhost Map.empty setup_session) = Inl RecursionError"
    by (simp add: make_request_fst try_block_def post_ok_response raise_for_status_ok)
       (simp add: ok_response_def fst_logged is_ConnectionError_def is_Timeout_def
          is_RequestException_def)
  moreover
  have "fst (make_request (answers (ok_response [line_of ''response'' ''A'' True]))
          localhost Map.empty setup_session) = Inr [str ''text'' \<mapsto> str ''A'']"
    by (simp add: make_request_fst try_block_def post_ok_response raise_for_status_ok)
       (simp add: ok_response_def for_loop_done fragment_line_of strip_def str_def
          isspace_def)
  moreover
  have "without_malformed (ok_response [BadJson_beyond Recursion_limit,
                                        line_of ''response'' ''A'' True]) =
          ok_response [line_of ''response'' ''A'' True]"
    by (simp add: without_malformed_def ok_response_def line_of_def)
  ultimately show ?thesis by simp
qed

section \<open>Streaming decoder: lines that are not UTF-8\<close>

text \<open>
  Claim C5 does not hold of the program. A line that is not UTF-8 makes
  \<open>line.decode('utf-8')\<close> raise \<open>UnicodeDecodeError\<close>, which is not a
  \<open>json.JSONDecodeError\<close> and not a \<open>requests\<close> exception: it leaves \<open>make_request\<close> and
  \<open>chat_with_gpt\<close>, and the lines after it are not read. The same body with a line that is
  not JSON in its place gives the text of the fragment that follows.
\<close>

theorem C5_decode_failure_escapes:
  "fst (make_request (answers (ok_response [BadUtf8, line_of ''response'' ''A'' True]))
          localhost Map.empty setup_session) = Inl UnicodeDecodeError \<and>
   fst (chat_with_gpt default_config
          (answers (ok_response [BadUtf8, line_of ''response'' ''A'' True]))
          (str ''hello'') (JObj []) setup_session) = Inl UnicodeDecodeError \<and>
   fst (make_request (answers (ok_response [BadJson, line_of ''response'' ''A'' True]))
          localhost Map.empty setup_session) = Inr [str ''text'' \<mapsto> str ''A'']"
proof -
  have 1: "fst (make_request (answers (ok_response (BadUtf8 # ls))) u data setup_session) =
             Inl UnicodeDecodeError" for ls u data
    by (simp add: make_request_fst try_block_def post_ok_response raise_for_status_ok)
       (simp add: ok_response_def is_ConnectionError_def is_Timeout_def
          is_RequestException_def)
  have 2: "fst (make_request (answers (ok_response [BadJson, line_of ''response'' ''A'' True]))
          localhost Map.empty setup_session) = Inr [str ''text'' \<mapsto> str ''A'']"
    by (simp add: make_request_fst try_block_def post_ok_response raise_for_status_ok)
       (simp add: ok_response_def fst_logged for_loop_done fragment_line_of strip_def
          str_def isspace_def)
  have 3: "fst (chat_with_gpt cfg srv p c s) = Inl e"
    if "fst (make_request srv (OLLAMA_URL cfg) (create_request_data cfg p c) s) = Inl e"
    for cfg srv p c s e
    using that by (simp add: chat_with_gpt_fst)
  from 1 2 3 [OF 1] show ?thesis by simp
qed

section \<open>Streaming decoder: a stream that never says it is done\<close>

text \<open>
  Claim C6 does not hold of the program. A body whose only line is not UTF-8 has no valid
  line and no fragment whose \<open>done\<close> is true, yet \<open>make_request\<close> does not return the
  empty text: \<open>UnicodeDecodeError\<close> leaves it. The same holds of every line whose exception
  the inner \<open>try\<close> does not catch: text nested beyond the recursion limit
  (\<open>RecursionError\<close>), a JSON value that is not an object (here \<open>5\<close>,
  \<open>AttributeError\<close>), an object whose \<open>response\<close> is \<open>null\<close> (\<open>TypeError\<close>). A body
  of lines that are empty or raise \<open>json.JSONDecodeError\<close> does give the empty text.
\<close>

theorem C6_stream_without_done_raises:
  "fst (make_request (answers (ok_response [BadUtf8]))
          localhost Map.empty setup_session) = Inl UnicodeDecodeError \<and>
   fst (make_request (answers (ok_response [BadJson_beyond Recursion_limit]))
          localhost Map.empty setup_session) = Inl RecursionError \<and>
   fst (make_request (answers (ok_response [Json (JInt 5)]))
          localhost Map.empty setup_session) = Inl AttributeError \<and>
   fst (make_request (answers (ok_response [Json (JObj [(str ''response'', JNull)])]))
          localhost Map.empty setup_session) = Inl TypeError \<and>
   fst (make_request (answers (ok_response [BadJson, Blank]))
          localhost Map.empty setup_session) = Inr [str ''text'' \<mapsto> []]"
  by (simp add: make_request_fst try_block_def post_ok_response raise_for_status_ok)
     (simp add: ok_response_def items_get_def fst_logged strip_Nil is_ConnectionError_def
        is_Timeout_def is_RequestException_def)

section \<open>Request builder: the payload\<close>

text \<open>
  Claim C7. \<open>create_request_data\<close> is a function of its arguments and the configured model
  name. The payload it returns always holds \<open>model\<close> (the configured name) and \<open>prompt\<close>
  (the prompt given), and it holds \<open>syllabus\<close>, with the context as its value, exactly
  when the context is true as \<open>if syllabus_data:\<close> tests it; for a context that is a dict
  that is exactly when the dict is not empty.
\<close>

theorem C7_create_request_data:
  "create_request_data cfg prompt ctx (str ''model'') = Some (JStr (MODEL_NAME cfg)) \<and>
   create_request_data cfg prompt ctx (str ''prompt'') = Some (JStr prompt) \<and>
   create_request_data cfg prompt ctx (str ''syllabus'') =
     (if truthy ctx then Some ctx else None) \<and>
   (str ''syllabus'' \<in> dom (create_request_data cfg prompt ctx)) = truthy ctx \<and>
   (str ''syllabus'' \<in> dom (create_request_data cfg prompt (JObj kvs))) = (kvs \<noteq> [])"
  by (simp add: create_request_data_def str_def Let_def dom_def)

theorem C7_witness:
  "str ''syllabus'' \<notin> dom (create_request_data default_config (str ''hello'') (JObj [])) \<and>
   str ''syllabus'' \<in> dom (create_request_data default_config (str ''hello'')
                              (JObj [(str ''unit'', JInt 1)]))"
  using C7_create_request_data
          [of default_config "str ''hello''" "JObj []" "[(str ''unit'', JInt 1)]"]
  by simp

section \<open>Context loader: a missing or malformed file\<close>

text \<open>
  Claim C8 does not hold of the program. \<open>load_syllabus_data\<close> catches
  \<open>FileNotFoundError\<close> and \<open>json.JSONDecodeError\<close> only. A file whose bytes are not text
  in the locale's encoding makes \<open>json.load\<close> raise \<open>UnicodeDecodeError\<close>, and text that
  is not JSON and nests brackets beyond the recursion limit makes it raise
  \<open>RecursionError\<close>: both leave \<open>load_syllabus_data\<close>, and nothing is logged. An absent
  file, and text on which \<open>json.load\<close> raises \<open>json.JSONDecodeError\<close>, do give the empty
  dict and one record of level ERROR.
\<close>

theorem C8_content_not_recovered:
  "load_syllabus_data Undecodable = (Inl UnicodeDecodeError, []) \<and>
   load_syllabus_data (Malformed_beyond Recursion_limit) = (Inl RecursionError, []) \<and>
   load_syllabus_data Malformed = (Inr (JObj []), [(ERROR, File_JSON_decode_error)]) \<and>
   load_syllabus_data Absent = (Inr (JObj []), [(ERROR, File_not_found)])"
  by simp

section \<open>Error classifier\<close>




section \<open>The record that make_request returns\<close>

text \<open>
  Claim C10. A record that \<open>make_request\<close> returns without the key \<open>error\<close> has the
  key \<open>text\<close>, so \<open>response_data.get("text", ...)\<close> in \<open>chat_with_gpt\<close> never takes its
  default; \<open>chat_with_gpt\<close> then returns that text, which neither starts nor ends with
  whitespace.
\<close>

theorem C10_text_key:
  assumes "fst (make_request srv (OLLAMA_URL cfg) (create_request_data cfg prompt ctx) s) =
             Inr d"
    and "d (str ''error'') = None"
  shows "\<exists>t. d (str ''text'') = Some t \<and>
             fst (chat_with_gpt cfg srv prompt ctx s) = Inr t \<and>
             (t = [] \<or> (\<not> isspace (hd t) \<and> \<not> isspace (last t)))"
proof (cases "fst (try_block srv (OLLAMA_URL cfg) (create_request_data cfg prompt ctx) s)")
  case (Inl e)
  with assms(1) obtain entry where "except_clauses e = Some (d, entry)"
    by (auto simp: make_request_fst split: option.splits)
  then have "d (str ''error'') \<noteq> None" by (rule except_clauses_error)
  with assms(2) show ?thesis by contradiction
next
  case (Inr full)
  with assms(1) have d: "d = [str ''text'' \<mapsto> strip full]"
    by (simp add: make_request_fst)
  have "fst (chat_with_gpt cfg srv prompt ctx s) = Inr (strip full)"
    using assms d by (simp add: chat_with_gpt_fst dict_get_def strip_strip)
  with d strip_ends [of full] show ?thesis by simp
qed

theorem C10_witness:
  "fst (chat_with_gpt default_config
          (answers (ok_response [line_of ''response'' '' Hi '' True]))
          (str ''hello'') (JObj []) setup_session) = Inr (str ''Hi'')"
proof -
  let ?srv = "answers (ok_response [line_of ''response'' '' Hi '' True])"
  have 1: "fst (make_request ?srv u data setup_session) = Inr [str ''text'' \<mapsto> str ''Hi'']"
    for u data
    by (simp add: make_request_fst try_block_def post_ok_response raise_for_status_ok)
       (simp add: ok_response_def for_loop_done fragment_line_of strip_def str_def
          isspace_def)
  have 2: "[str ''text'' \<mapsto> str ''Hi''] (str ''error'') = None"
    by (simp add: str_def)
  from C10_text_key [OF 1 2, of default_config "str ''hello''" "JObj []"]
  show ?thesis by simp
qed

end
